theory Spec2Isabelle
  imports Main
begin

section \<open>Data of package flux used by the server\<close>

text \<open>
  Modelled from the spec: \<open>flux.BackendService\<close> is declared outside \<open>src/\<close>. The
  fields are those of the spec's data model: an id and \<open>{proto, host, uri, method}\<close>.
\<close>

record BackendService =
  ServiceId :: string
  ServiceProto :: string
  ServiceHost :: string
  ServiceUri :: string
  ServiceMethod :: string

text \<open>
  Modelled from the spec: \<open>flux.Endpoint\<close> is declared outside \<open>src/\<close>. The fields
  are the ones the source files read or write (\<open>Version\<close>, \<open>HttpMethod\<close>,
  \<open>HttpPattern\<close>, \<open>Authorize\<close>, the upstream selector, \<open>Arguments\<close>,
  \<open>Permission\<close>, \<open>Permissions\<close>). An argument is kept as its name.
\<close>

record Endpoint =
  Version :: string
  HttpMethod :: string
  HttpPattern :: string
  Authorize :: bool
  UpstreamProto :: string
  UpstreamHost :: string
  UpstreamUri :: string
  UpstreamMethod :: string
  Arguments :: "string list"
  Permission :: BackendService
  Permissions :: "string list"

text \<open>
  Modelled from the spec: \<open>flux.EndpointEvent\<close> is declared outside \<open>src/\<close>. An
  event carries its type, the method and pattern of the route (\<open>event.HttpMethod\<close>,
  \<open>event.HttpPattern\<close>) and the endpoint (\<open>event.Endpoint\<close>).
\<close>

datatype EventType = EndpointEventAdded | EndpointEventUpdated | EndpointEventRemoved

record EndpointEvent =
  Event_Type :: EventType
  Event_HttpMethod :: string
  Event_HttpPattern :: string
  Event_Endpoint :: Endpoint

text \<open>
  \<open>flux.InvokeError\<close> as \<open>server.go\<close> and the Dubbo exchanger build it:
  \<open>StatusCode\<close>, \<open>Message\<close> and the internal cause (\<open>None\<close> is Go's nil).
\<close>

record InvokeError =
  StatusCode :: int
  Message :: string
  Internal :: "string option"

text \<open>
  A Go \<open>error\<close> value is either a \<open>*flux.InvokeError\<close> or an error of any other
  dynamic type, kept as its text.
\<close>

datatype go_error = IsInvokeError InvokeError | OtherError string

text \<open>
  Modelled from the spec: the status constants of package flux are declared outside
  \<open>src/\<close>; the spec gives 404 for a missing endpoint version, 400 for a form parsing
  failure and 502 for a backend failure.
\<close>

definition StatusNotFound :: int where
  "StatusNotFound = 404"

definition StatusBadRequest :: int where
  "StatusBadRequest = 400"

definition StatusBadGateway :: int where
  "StatusBadGateway = 502"

section \<open>The multi-version endpoint table\<close>

text \<open>
  Modelled from the spec: \<open>internal.MultiVersionEndpoint\<close> is declared outside
  \<open>src/\<close>. The spec describes a container \<open>version \<rightarrow> Endpoint\<close> where
  \<open>update(version, endpoint)\<close> replaces the slot of that version and
  \<open>delete(version)\<close> removes it. \<open>Get\<close> reports the slot and whether it exists.
\<close>

type_synonym MultiVersionEndpoint = "string \<rightharpoonup> Endpoint"

definition NewMultiVersionEndpoint :: MultiVersionEndpoint where
  "NewMultiVersionEndpoint = Map.empty"

definition Get :: "MultiVersionEndpoint \<Rightarrow> string \<Rightarrow> Endpoint option \<times> bool" where
  "Get m version = (m version, m version \<noteq> None)"

definition Update :: "MultiVersionEndpoint \<Rightarrow> string \<Rightarrow> Endpoint \<Rightarrow> MultiVersionEndpoint" where
  "Update m version endpoint = m(version \<mapsto> endpoint)"

definition Delete :: "MultiVersionEndpoint \<Rightarrow> string \<Rightarrow> MultiVersionEndpoint" where
  "Delete m version = m(version := None)"

section \<open>The server and its route event loop (server.go)\<close>

text \<open>
  The part of \<open>FluxServer\<close> the event loop touches: \<open>endpointMvMap\<close>, and the
  routes of the embedded HTTP server as the list of \<open>httpServer.Add\<close> calls made so
  far. A call is kept as (method, pattern, route key): the handler passed to \<open>Add\<close> is
  \<open>generateRouter\<close> closed over the table entry of that route key.
\<close>

record FluxServer =
  endpointMvMap :: "string \<rightharpoonup> MultiVersionEndpoint"
  httpRoutes :: "(string \<times> string \<times> string) list"
  httpVersionHeader :: string

definition defaultHttpVersionHeader :: string where
  "defaultHttpVersionHeader = ''X-Version''"

definition defaultHttpVersionValue :: string where
  "defaultHttpVersionValue = ''v1''"

definition NewFluxServer :: FluxServer where
  "NewFluxServer = \<lparr>endpointMvMap = Map.empty, httpRoutes = [], httpVersionHeader = []\<rparr>"

text \<open>
  \<open>Init\<close>, as far as the version header goes:
  \<open>httpConfig.StringOrDefault("version-header", "X-Version")\<close>, where \<open>configured\<close>
  is the configured value, \<open>None\<close> when there is none.
\<close>

definition Init :: "FluxServer \<Rightarrow> string option \<Rightarrow> FluxServer" where
  "Init fs configured =
     fs\<lparr>httpVersionHeader :=
          (case configured of None \<Rightarrow> defaultHttpVersionHeader | Some h \<Rightarrow> h)\<rparr>"

text \<open>
  \<open>strings.Replace(uri, "}", "", -1)\<close> drops every closing brace; when that shortened
  the string, every opening brace becomes a colon.
\<close>

definition toHttpServerPattern :: "string \<Rightarrow> string" where
  "toHttpServerPattern uri =
     (let replaced = filter (\<lambda>c. c \<noteq> CHR ''}'') uri
      in if length replaced < length uri
         then map (\<lambda>c. if c = CHR ''{'' then CHR '':'' else c) replaced
         else uri)"

text \<open>\<open>fmt.Sprintf("%s#%s", event.HttpMethod, pattern)\<close>.\<close>

definition routeKeyOf :: "string \<Rightarrow> string \<Rightarrow> string" where
  "routeKeyOf method pattern = method @ ''#'' @ pattern"

text \<open>
  \<open>getVersionEndpoint\<close>: an existing entry is returned with \<open>False\<close>; otherwise a
  new empty table is stored under the key and returned with \<open>True\<close>.
\<close>

definition getVersionEndpoint ::
  "FluxServer \<Rightarrow> string \<Rightarrow> (MultiVersionEndpoint \<times> bool) \<times> FluxServer" where
  "getVersionEndpoint fs routeKey =
     (case endpointMvMap fs routeKey of
        Some mve \<Rightarrow> ((mve, False), fs)
      | None \<Rightarrow>
          ((NewMultiVersionEndpoint, True),
           fs\<lparr>endpointMvMap := (endpointMvMap fs)(routeKey \<mapsto> NewMultiVersionEndpoint)\<rparr>))"

text \<open>
  The table is held by pointer: a method called on \<open>vEndpoint\<close> changes the entry of
  the map. Every key has a table of its own, so the write is an update of that entry.
\<close>

definition onVersionEndpoint ::
  "FluxServer \<Rightarrow> string \<Rightarrow> (MultiVersionEndpoint \<Rightarrow> MultiVersionEndpoint) \<Rightarrow> FluxServer" where
  "onVersionEndpoint fs routeKey f =
     (case endpointMvMap fs routeKey of
        Some mve \<Rightarrow> fs\<lparr>endpointMvMap := (endpointMvMap fs)(routeKey \<mapsto> f mve)\<rparr>
      | None \<Rightarrow> fs)"

definition allowedHttpMethods :: "string list" where
  "allowedHttpMethods =
     [''GET'', ''POST'', ''DELETE'', ''PUT'', ''HEAD'', ''OPTIONS'', ''PATCH'', ''TRACE'']"

text \<open>
  \<open>strings.ToUpper\<close> of the Go library restricted to ASCII letters, for concrete
  inputs. The event loop below takes the uppercase function as the parameter
  \<open>upper\<close>, so that its theorems hold for the library function whatever it does on
  other characters.
\<close>

definition asciiToUpper :: "string \<Rightarrow> string" where
  "asciiToUpper s =
     map (\<lambda>c. if (97::nat) \<le> of_char c \<and> of_char c \<le> (122::nat)
              then char_of (of_char c - (32::nat)) else c) s"

text \<open>
  One iteration of the loop of \<open>handleHttpRouteEvent\<close>. The table entry is fetched or
  created first; then the endpoint's method is uppercased and checked, and an
  unsupported method ends the iteration (\<open>continue\<close>); then the event is applied.
\<close>

definition handleEvent :: "(string \<Rightarrow> string) \<Rightarrow> FluxServer \<Rightarrow> EndpointEvent \<Rightarrow> FluxServer" where
  "handleEvent upper fs event =
     (let pattern = toHttpServerPattern (Event_HttpPattern event);
          routeKey = routeKeyOf (Event_HttpMethod event) pattern;
          ((vEndpoint, isNew), fs1) = getVersionEndpoint fs routeKey;
          eEndpoint = (Event_Endpoint event)\<lparr>HttpMethod := upper (HttpMethod (Event_Endpoint event))\<rparr>
      in if HttpMethod eEndpoint \<notin> set allowedHttpMethods then fs1
         else (case Event_Type event of
                 EndpointEventAdded \<Rightarrow>
                   (let fs2 = onVersionEndpoint fs1 routeKey (\<lambda>m. Update m (Version eEndpoint) eEndpoint)
                    in if isNew
                       then fs2\<lparr>httpRoutes := httpRoutes fs2 @ [(Event_HttpMethod event, pattern, routeKey)]\<rparr>
                       else fs2)
               | EndpointEventUpdated \<Rightarrow>
                   onVersionEndpoint fs1 routeKey (\<lambda>m. Update m (Version eEndpoint) eEndpoint)
               | EndpointEventRemoved \<Rightarrow>
                   onVersionEndpoint fs1 routeKey (\<lambda>m. Delete m (Version eEndpoint))))"

text \<open>The loop over the events drained from the channel, in order.\<close>

fun handleHttpRouteEvent :: "(string \<Rightarrow> string) \<Rightarrow> FluxServer \<Rightarrow> EndpointEvent list \<Rightarrow> FluxServer" where
  "handleHttpRouteEvent upper fs [] = fs"
| "handleHttpRouteEvent upper fs (event # events) =
     handleHttpRouteEvent upper (handleEvent upper fs event) events"

text \<open>The route key of an event, and how often a route key was registered.\<close>

definition eventRouteKey :: "EndpointEvent \<Rightarrow> string" where
  "eventRouteKey event =
     routeKeyOf (Event_HttpMethod event) (toHttpServerPattern (Event_HttpPattern event))"

definition registrations :: "FluxServer \<Rightarrow> string \<Rightarrow> nat" where
  "registrations fs routeKey = length (filter (\<lambda>r. snd (snd r) = routeKey) (httpRoutes fs))"

definition supportedEvent :: "(string \<Rightarrow> string) \<Rightarrow> EndpointEvent \<Rightarrow> bool" where
  "supportedEvent upper event \<longleftrightarrow> upper (HttpMethod (Event_Endpoint event)) \<in> set allowedHttpMethods"


text \<open>Concrete endpoints and events used to evaluate the loop.\<close>

definition noService :: BackendService where
  "noService =
     \<lparr>ServiceId = [], ServiceProto = [], ServiceHost = [], ServiceUri = [], ServiceMethod = []\<rparr>"

definition sampleEndpoint :: "string \<Rightarrow> string \<Rightarrow> Endpoint" where
  "sampleEndpoint method version =
     \<lparr>Version = version, HttpMethod = method, HttpPattern = ''/api/{id}'', Authorize = False,
      UpstreamProto = ''dubbo'', UpstreamHost = [], UpstreamUri = ''com.X.Svc'',
      UpstreamMethod = ''get'', Arguments = [''id''], Permission = noService, Permissions = []\<rparr>"

definition sampleEvent :: "EventType \<Rightarrow> string \<Rightarrow> string \<Rightarrow> EndpointEvent" where
  "sampleEvent t method version =
     \<lparr>Event_Type = t, Event_HttpMethod = method, Event_HttpPattern = ''/api/{id}'',
      Event_Endpoint = sampleEndpoint method version\<rparr>"

section \<open>The route handler (server.go, generateRouter)\<close>

text \<open>A call into code outside the handler either returns or panics.\<close>

datatype 'a call = Returns 'a | Panics string

text \<open>
  The request as the handler reads it: the headers, the method and URI (used in the
  cause of a form parsing error) and the outcome of \<open>ParseForm\<close> (\<open>None\<close> is nil).
\<close>

record Request =
  Header :: "string \<rightharpoonup> string"
  Req_Method :: string
  RequestURI :: string
  ParseForm :: "string option"

text \<open>
  \<open>Header.Get\<close> of the Go library: the value stored under the key, the empty string
  when there is none. Keys are taken in canonical form.
\<close>

definition Header_Get :: "(string \<rightharpoonup> string) \<Rightarrow> string \<Rightarrow> string" where
  "Header_Get h key = (case h key of None \<Rightarrow> [] | Some v \<Rightarrow> v)"

text \<open>
  What the handler does besides returning, in order: counting the visit, binding a pooled
  context to the endpoint (nil when none was found), storing it in the web context,
  logging the request with the version, parsing the form, running the dispatcher (the
  filter chain and the backend exchanger run inside it), writing the response, releasing
  the context, and logging a recovered panic.
\<close>

datatype effect =
    HttpVisit
  | Acquire "Endpoint option"
  | SetRoutedContext
  | LogReceived string
  | FormParsing
  | Dispatch "Endpoint option"
  | WriteResponse
  | Release
  | LogError string

text \<open>
  The dispatcher and the response writer are declared outside \<open>src/\<close>: they are
  parameters, each a call on the context's endpoint that returns or panics.
\<close>

record HandlerEnv =
  Dispatcher_Dispatch :: "Endpoint option \<Rightarrow> InvokeError option call"
  Writer_WriteResponse :: "Endpoint option \<Rightarrow> go_error option call"

definition errEndpointVersionNotFound :: InvokeError where
  "errEndpointVersionNotFound =
     \<lparr>StatusCode = StatusNotFound, Message = ''ENDPOINT_VERSION_NOT_FOUND'', Internal = None\<rparr>"

definition errFormParsing :: "Request \<Rightarrow> string \<Rightarrow> InvokeError" where
  "errFormParsing req err =
     \<lparr>StatusCode = StatusBadRequest, Message = ''REQUEST:FORM_PARSING'',
      Internal = Some (''parsing req-form, method: '' @ Req_Method req @ '', uri:''
                        @ RequestURI req @ '', err: '' @ err)\<rparr>"

text \<open>
  The body of the handler without its recovery. \<open>defer fs.release(newCtx)\<close> is
  registered after the context is stored, so \<open>Release\<close> ends every path from there on,
  a panicking one too.
\<close>

definition routerBody ::
  "FluxServer \<Rightarrow> MultiVersionEndpoint \<Rightarrow> HandlerEnv \<Rightarrow> Request \<Rightarrow> go_error option call \<times> effect list" where
  "routerBody fs mvEndpoint env req =
     (let version0 = Header_Get (Header req) (httpVersionHeader fs);
          (endpoint0, found0) = Get mvEndpoint version0;
          (version, endpoint, found) =
            (if \<not> found0
             then (let (e, f) = Get mvEndpoint defaultHttpVersionValue
                   in (defaultHttpVersionValue, e, f))
             else (version0, endpoint0, found0));
          entered = [HttpVisit, Acquire endpoint, SetRoutedContext, LogReceived version]
      in if \<not> found
         then (Returns (Some (IsInvokeError errEndpointVersionNotFound)), entered @ [Release])
         else (case ParseForm req of
                 Some err \<Rightarrow>
                   (Returns (Some (IsInvokeError (errFormParsing req err))),
                    entered @ [FormParsing, Release])
               | None \<Rightarrow>
                   (case Dispatcher_Dispatch env endpoint of
                      Panics p \<Rightarrow> (Panics p, entered @ [FormParsing, Dispatch endpoint, Release])
                    | Returns (Some err) \<Rightarrow>
                        (Returns (Some (IsInvokeError err)),
                         entered @ [FormParsing, Dispatch endpoint, Release])
                    | Returns None \<Rightarrow>
                        (case Writer_WriteResponse env endpoint of
                           Panics p \<Rightarrow>
                             (Panics p,
                              entered @ [FormParsing, Dispatch endpoint, WriteResponse, Release])
                         | Returns r \<Rightarrow>
                             (Returns r,
                              entered @ [FormParsing, Dispatch endpoint, WriteResponse, Release])))))"

text \<open>
  The handler: the deferred function recovers a panic and logs it. The handler's result
  is unnamed, so after a recovered panic it returns the zero value of \<open>error\<close>, nil.
\<close>

definition generateRouter ::
  "FluxServer \<Rightarrow> MultiVersionEndpoint \<Rightarrow> HandlerEnv \<Rightarrow> Request \<Rightarrow> go_error option \<times> effect list" where
  "generateRouter fs mvEndpoint env req =
     (case routerBody fs mvEndpoint env req of
        (Returns r, effects) \<Rightarrow> (r, effects)
      | (Panics p, effects) \<Rightarrow> (None, effects @ [LogError p]))"

text \<open>A concrete request and environment used to evaluate the handler.\<close>

definition sampleRequest :: "(string \<rightharpoonup> string) \<Rightarrow> Request" where
  "sampleRequest h = \<lparr>Header = h, Req_Method = ''GET'', RequestURI = ''/api/42'', ParseForm = None\<rparr>"

definition sampleEnv :: "InvokeError option call \<Rightarrow> go_error option call \<Rightarrow> HandlerEnv" where
  "sampleEnv d w = \<lparr>Dispatcher_Dispatch = (\<lambda>_. d), Writer_WriteResponse = (\<lambda>_. w)\<rparr>"

section \<open>The unified HTTP error adapter (server.go, httpErrorAdapting)\<close>

text \<open>
  The routed context as the adapter reads it: its request id and the headers of its
  response writer. The web context holds one under \<open>$flux.context\<close> or nothing.
\<close>

record RoutedContext =
  Routed_RequestId :: string
  Routed_Headers :: "(string \<times> string) list"

text \<open>
  The adapter's result is the call of \<open>WriteError\<close> it makes: request id, headers and
  the error written.
\<close>

definition httpErrorAdapting ::
  "go_error \<Rightarrow> RoutedContext option \<Rightarrow> string \<times> (string \<times> string) list \<times> InvokeError" where
  "httpErrorAdapting err fc =
     (let iErr = (case err of
                    IsInvokeError e \<Rightarrow> e
                  | OtherError t \<Rightarrow>
                      \<lparr>StatusCode = StatusBadRequest, Message = ''REQUEST:FORM_PARSING'',
                       Internal = Some t\<rparr>)
      in case fc of
           Some fxCtx \<Rightarrow> (Routed_RequestId fxCtx, Routed_Headers fxCtx, iErr)
         | None \<Rightarrow> (''$proxy'', [], iErr))"

section \<open>The request context (WrappedContext)\<close>

text \<open>
  A Go \<open>interface{}\<close> value is \<open>'v option\<close>, \<open>None\<close> being nil. The web layer is
  seen through \<open>webc.GetValue\<close>. The fields carry the prefix \<open>ctx_\<close>. The maps
  and \<open>webc\<close> are nil before \<open>Reattach\<close> and after \<open>Release\<close>; a method called
  through nil panics.
\<close>

datatype panic = NilPointerDereference

record 'v WrappedContext =
  ctx_requestId :: string
  ctx_webc :: "(string \<Rightarrow> 'v option) option"
  ctx_endpoint :: "Endpoint option"
  ctx_attachments :: "(string \<rightharpoonup> 'v option) option"
  ctx_values :: "(string \<rightharpoonup> 'v option) option"

definition SetValue :: "'v WrappedContext \<Rightarrow> string \<Rightarrow> 'v option \<Rightarrow> panic + 'v WrappedContext" where
  "SetValue c name v =
     (case ctx_values c of
        None \<Rightarrow> Inl NilPointerDereference
      | Some vals \<Rightarrow> Inr (c\<lparr>ctx_values := Some (vals(name \<mapsto> v))\<rparr>))"

definition GetValue :: "'v WrappedContext \<Rightarrow> string \<Rightarrow> panic + ('v option \<times> bool)" where
  "GetValue c name =
     (case ctx_values c of
        None \<Rightarrow> Inl NilPointerDereference
      | Some vals \<Rightarrow>
          (case vals name of
             Some lv \<Rightarrow> Inr (lv, True)
           | None \<Rightarrow>
               (case ctx_webc c of
                  None \<Rightarrow> Inl NilPointerDereference
                | Some web \<Rightarrow>
                    (case web name of
                       Some cv \<Rightarrow> Inr (Some cv, True)
                     | None \<Rightarrow> Inr (None, False)))))"

section \<open>The permission filter (filter/permisstion.go)\<close>

record PermissionVerifyReport =
  Report_StatusCode :: int
  Success :: bool
  Report_ErrorCode :: string
  Report_Message :: string

text \<open>\<open>flux.StateError\<close> as the filter builds it.\<close>

record StateError =
  State_StatusCode :: int
  ErrorCode :: string
  State_Message :: string
  State_Internal :: "string option"

text \<open>The error of a \<open>VerifyFunc\<close>: a \<open>*flux.StateError\<close> or any other error.\<close>

datatype verify_error = IsStateError StateError | OtherVerifyError string

text \<open>
  A filter handler runs on a context of type \<open>'c\<close> and on the state \<open>'w\<close> of
  everything it can reach (the backends); it returns its error (\<open>None\<close> is nil) and
  the state it leaves.
\<close>

type_synonym ('c, 'w) FilterHandler = "'c \<Rightarrow> 'w \<Rightarrow> StateError option \<times> 'w"

record ('c, 'w) PermissionFilter =
  Disabled :: bool
  SkipFunc :: "'c \<Rightarrow> bool"
  VerifyFunc :: "BackendService list \<Rightarrow> 'c \<Rightarrow> 'w \<Rightarrow> (PermissionVerifyReport \<times> verify_error option) \<times> 'w"

text \<open>
  What the filter uses from outside \<open>src/\<close>, as parameters: \<open>ctx.Endpoint()\<close>,
  \<open>BackendService.IsValid\<close>, \<open>ext.LoadBackendService\<close> and the constants
  \<open>flux.StatusServerError\<close> and \<open>flux.ErrorCodeGatewayInternal\<close>.
\<close>

record 'c FilterEnv =
  Context_Endpoint :: "'c \<Rightarrow> Endpoint"
  IsValid :: "BackendService \<Rightarrow> bool"
  LoadBackendService :: "string \<rightharpoonup> BackendService"
  StatusServerError :: int
  ErrorCodeGatewayInternal :: string

definition ErrorCodePermissionDenied :: string where
  "ErrorCodePermissionDenied = ''PERMISSION:ACCESS_DENIED''"

text \<open>\<open>http.StatusForbidden\<close> of the Go library.\<close>

definition StatusForbidden :: int where
  "StatusForbidden = 403"

definition EnsurePermissionStatusCode :: "int \<Rightarrow> int" where
  "EnsurePermissionStatusCode status = (if status < 100 then StatusForbidden else status)"

definition EnsurePermissionErrorCode :: "string \<Rightarrow> string" where
  "EnsurePermissionErrorCode code = (if [] = code then ErrorCodePermissionDenied else code)"

definition EnsurePermissionMessage :: "string \<Rightarrow> string" where
  "EnsurePermissionMessage message = (if [] = message then ErrorCodePermissionDenied else message)"

text \<open>
  The loop over \<open>endpoint.Permissions\<close>: every id is loaded and appended; the first
  id that is not registered ends the filter with that id.
\<close>

fun loadServices ::
  "(string \<rightharpoonup> BackendService) \<Rightarrow> string list \<Rightarrow> BackendService list \<Rightarrow> string + BackendService list" where
  "loadServices load [] services = Inr services"
| "loadServices load (sid # ids) services =
     (case load sid of
        Some srv \<Rightarrow> loadServices load ids (services @ [srv])
      | None \<Rightarrow> Inl sid)"

definition DoFilter ::
  "('c, 'w) PermissionFilter \<Rightarrow> 'c FilterEnv \<Rightarrow> ('c, 'w) FilterHandler \<Rightarrow> ('c, 'w) FilterHandler" where
  "DoFilter p env next =
     (if Disabled p then next
      else (\<lambda>ctx w.
        if SkipFunc p ctx then next ctx w
        else (let endpoint = Context_Endpoint env ctx
              in if False = Authorize endpoint then next ctx w
                 else (let size = length (Permissions endpoint)
                       in if size = 0 \<and> \<not> IsValid env (Permission endpoint) then next ctx w
                          else (case loadServices (LoadBackendService env) (Permissions endpoint)
                                       (if IsValid env (Permission endpoint)
                                        then [Permission endpoint] else []) of
                                  Inl sid \<Rightarrow>
                                    (Some \<lparr>State_StatusCode = StatusServerError env,
                                           ErrorCode = ErrorCodeGatewayInternal env,
                                           State_Message = ''PERMISSION:SERVICE:NOT_FOUND'',
                                           State_Internal = Some (''service not found, id: '' @ sid)\<rparr>,
                                     w)
                                | Inr services \<Rightarrow>
                                    (case VerifyFunc p services ctx w of
                                       ((report, Some (IsStateError serr)), w') \<Rightarrow> (Some serr, w')
                                     | ((report, Some (OtherVerifyError t)), w') \<Rightarrow>
                                         (Some \<lparr>State_StatusCode = StatusForbidden,
                                                ErrorCode = ErrorCodeGatewayInternal env,
                                                State_Message = ''PERMISSION:VERIFY:ERROR'',
                                                State_Internal = Some t\<rparr>,
                                          w')
                                     | ((report, None), w') \<Rightarrow>
                                         (if \<not> Success report
                                          then (Some \<lparr>State_StatusCode =
                                                        EnsurePermissionStatusCode (Report_StatusCode report),
                                                      ErrorCode =
                                                        EnsurePermissionErrorCode (Report_ErrorCode report),
                                                      State_Message =
                                                        EnsurePermissionMessage (Report_Message report),
                                                      State_Internal = None\<rparr>,
                                                w')
                                          else next ctx w')))))))"

section \<open>The Dubbo exchanger (exchange/dubbo/exchange.go)\<close>

text \<open>
  The exchanger's state is its reference cache. What it uses from outside \<open>src/\<close> are
  parameters: \<open>assemble\<close> (types and values of the arguments), \<open>newReference\<close>, and
  the generic invocation of the Dubbo library, which receives the reference, the
  attachments (\<open>None\<close> when the context is nil), the method, the types and the values,
  and returns a response and an error (\<open>None\<close> is nil).
\<close>

record 'ref exchange =
  loggingEnabled :: bool
  referenceMap :: "string \<rightharpoonup> 'ref"

record ('ref, 'resp) DubboEnv =
  assemble :: "string list \<Rightarrow> string list \<times> string list"
  newReference :: "Endpoint \<Rightarrow> 'ref"
  GenericService_Invoke ::
    "'ref \<Rightarrow> (string \<times> string) list option \<Rightarrow> string \<Rightarrow> string list \<Rightarrow> string list
       \<Rightarrow> 'resp option \<times> string option"

definition ErrMessageInvoke :: string where
  "ErrMessageInvoke = ''DUBBO_RPC:INVOKE''"

definition lookup :: "('ref, 'resp) DubboEnv \<Rightarrow> 'ref exchange \<Rightarrow> Endpoint \<Rightarrow> 'ref \<times> 'ref exchange" where
  "lookup env ex endpoint =
     (let interfaceName = UpstreamUri endpoint
      in case referenceMap ex interfaceName of
           Some ref \<Rightarrow> (ref, ex)
         | None \<Rightarrow>
             (let newRef = newReference env endpoint
              in (newRef, ex\<lparr>referenceMap := (referenceMap ex)(interfaceName \<mapsto> newRef)\<rparr>)))"

text \<open>
  \<open>Invoke\<close> returns the raw response, the error, and the exchanger with its cache as
  the call left it. \<open>fxctx\<close> is the attribute map of the context, \<open>None\<close> for nil.
\<close>

definition Invoke ::
  "('ref, 'resp) DubboEnv \<Rightarrow> 'ref exchange \<Rightarrow> Endpoint \<Rightarrow> (string \<times> string) list option
     \<Rightarrow> ('resp option \<times> InvokeError option) \<times> 'ref exchange" where
  "Invoke env ex target fxctx =
     (let (types, args) = assemble env (Arguments target);
          (reference, ex') = lookup env ex target
      in case GenericService_Invoke env reference fxctx (UpstreamMethod target) types args of
           (resp, Some err) \<Rightarrow>
             ((None, Some \<lparr>StatusCode = StatusBadGateway, Message = ErrMessageInvoke,
                           Internal = Some err\<rparr>), ex')
         | (resp, None) \<Rightarrow> ((resp, None), ex'))"

section \<open>Concrete inputs for the context, the filter and the exchanger\<close>

definition sampleContext :: "string WrappedContext" where
  "sampleContext =
     \<lparr>ctx_requestId = ''r-1'',
      ctx_webc = Some (\<lambda>name. if name = ''user'' then Some ''from-web'' else None),
      ctx_endpoint = None,
      ctx_attachments = Some Map.empty,
      ctx_values = Some [''k'' \<mapsto> Some ''local'']\<rparr>"

text \<open>
  A filter whose verification denies every request with the report
  \<open>{success: false, errorCode: "PERMISSION:ACCESS_DENIED"}\<close>. The context is the
  endpoint itself; the state counts the calls that reach the backend exchanger, and
  \<open>countingNext\<close> is a rest of the chain that makes one.
\<close>

definition deniedReport :: PermissionVerifyReport where
  "deniedReport =
     \<lparr>Report_StatusCode = 0, Success = False, Report_ErrorCode = ''PERMISSION:ACCESS_DENIED'',
      Report_Message = []\<rparr>"

definition denyingFilter :: "(Endpoint, nat) PermissionFilter" where
  "denyingFilter =
     \<lparr>Disabled = False, SkipFunc = (\<lambda>_. False),
      VerifyFunc = (\<lambda>services ctx w. ((deniedReport, None), w))\<rparr>"

definition permService :: BackendService where
  "permService =
     \<lparr>ServiceId = ''perm'', ServiceProto = ''dubbo'', ServiceHost = [],
      ServiceUri = ''com.X.Perm'', ServiceMethod = ''verify''\<rparr>"

definition sampleFilterEnv :: "Endpoint FilterEnv" where
  "sampleFilterEnv =
     \<lparr>Context_Endpoint = (\<lambda>e. e), IsValid = (\<lambda>s. ServiceUri s \<noteq> []),
      LoadBackendService = [''perm'' \<mapsto> permService],
      StatusServerError = 500, ErrorCodeGatewayInternal = ''GATEWAY:INTERNAL''\<rparr>"

definition authorizedEndpoint :: Endpoint where
  "authorizedEndpoint = (sampleEndpoint ''GET'' ''v1'')\<lparr>Authorize := True, Permissions := [''perm'']\<rparr>"

definition countingNext :: "(Endpoint, nat) FilterHandler" where
  "countingNext ctx w = (None, Suc w)"

text \<open>A Dubbo environment whose generic invocation fails with a transport error.\<close>

definition failingDubbo :: "(string, string) DubboEnv" where
  "failingDubbo =
     \<lparr>assemble = (\<lambda>arguments. (map (\<lambda>_. ''java.lang.String'') arguments, arguments)),
      newReference = (\<lambda>e. UpstreamUri e),
      GenericService_Invoke =
        (\<lambda>reference attachments method types args. (Some ''partial'', Some ''connection refused''))\<rparr>"

definition NewDubboExchange :: "string exchange" where
  "NewDubboExchange = \<lparr>loggingEnabled = False, referenceMap = Map.empty\<rparr>"

section \<open>Properties of the route event loop\<close>

lemma handleEvent_routes:
  "httpRoutes (handleEvent upper fs ev) =
     httpRoutes fs @
       (if endpointMvMap fs (eventRouteKey ev) = None \<and> supportedEvent upper ev
           \<and> Event_Type ev = EndpointEventAdded
        then [(Event_HttpMethod ev, toHttpServerPattern (Event_HttpPattern ev), eventRouteKey ev)]
        else [])"
  by (cases "Event_Type ev")
     (auto simp: handleEvent_def getVersionEndpoint_def onVersionEndpoint_def eventRouteKey_def
        supportedEvent_def Let_def split: option.splits)

lemma handleEvent_dom:
  "dom (endpointMvMap (handleEvent upper fs ev)) = insert (eventRouteKey ev) (dom (endpointMvMap fs))"
  by (cases "Event_Type ev")
     (auto simp: handleEvent_def getVersionEndpoint_def onVersionEndpoint_def eventRouteKey_def
        Let_def split: option.splits if_splits)

lemma handleEvent_other_key:
  "k \<noteq> eventRouteKey ev \<Longrightarrow> endpointMvMap (handleEvent upper fs ev) k = endpointMvMap fs k"
  by (cases "Event_Type ev")
     (auto simp: handleEvent_def getVersionEndpoint_def onVersionEndpoint_def eventRouteKey_def
        Let_def split: option.splits if_splits)

text \<open>
  The table entry of the event's own route key after one iteration: the old table (the
  empty one when the key is new) with the slot of the endpoint's version set by a
  supported \<open>Added\<close> or \<open>Updated\<close> event, removed by a supported \<open>Removed\<close>
  event, and left as it is when the method is unsupported.
\<close>

lemma handleEvent_own_key:
  "endpointMvMap (handleEvent upper fs ev) (eventRouteKey ev) =
     Some (let old = (case endpointMvMap fs (eventRouteKey ev) of
                        None \<Rightarrow> NewMultiVersionEndpoint | Some m \<Rightarrow> m);
               e = (Event_Endpoint ev)\<lparr>HttpMethod := upper (HttpMethod (Event_Endpoint ev))\<rparr>
           in if \<not> supportedEvent upper ev then old
              else if Event_Type ev = EndpointEventRemoved then Delete old (Version e)
              else Update old (Version e) e)"
  by (cases "Event_Type ev")
     (auto simp: handleEvent_def getVersionEndpoint_def onVersionEndpoint_def eventRouteKey_def
        supportedEvent_def Let_def split: option.splits)










lemma sample_key: "eventRouteKey (sampleEvent t ''GET'' v) = ''GET#/api/:id''"
  by (simp add: eventRouteKey_def sampleEvent_def routeKeyOf_def toHttpServerPattern_def)

lemma sample_supported: "supportedEvent asciiToUpper (sampleEvent t ''GET'' v)"
  by (simp add: supportedEvent_def sampleEvent_def sampleEndpoint_def asciiToUpper_def
        allowedHttpMethods_def)




text \<open>
  C3: the code differs from the claim. An \<open>Added\<close> event whose endpoint method is
  \<open>CONNECT\<close> is rejected, but \<open>getVersionEndpoint\<close> has run before the method is
  checked: the routing table, empty before, holds an empty table under the event's route
  key afterwards.
\<close>

theorem unsupported_method_creates_entry:
  "asciiToUpper (HttpMethod (Event_Endpoint (sampleEvent EndpointEventAdded ''CONNECT'' ''v1'')))
     = ''CONNECT'' \<and>
   ''CONNECT'' \<notin> set allowedHttpMethods \<and>
   eventRouteKey (sampleEvent EndpointEventAdded ''CONNECT'' ''v1'') = ''CONNECT#/api/:id'' \<and>
   endpointMvMap NewFluxServer ''CONNECT#/api/:id'' = None \<and>
   endpointMvMap
     (handleHttpRouteEvent asciiToUpper NewFluxServer [sampleEvent EndpointEventAdded ''CONNECT'' ''v1''])
     ''CONNECT#/api/:id'' = Some NewMultiVersionEndpoint"
proof -
  let ?c = "sampleEvent EndpointEventAdded ''CONNECT'' ''v1''"
  have up: "asciiToUpper (HttpMethod (Event_Endpoint ?c)) = ''CONNECT''"
    by (simp add: sampleEvent_def sampleEndpoint_def asciiToUpper_def)
  have no: "''CONNECT'' \<notin> set allowedHttpMethods"
    by (simp add: allowedHttpMethods_def)
  have key: "eventRouteKey ?c = ''CONNECT#/api/:id''"
    by (simp add: eventRouteKey_def sampleEvent_def routeKeyOf_def toHttpServerPattern_def)
  have unsupported: "\<not> supportedEvent asciiToUpper ?c"
    using up no by (simp add: supportedEvent_def)
  have "endpointMvMap (handleEvent asciiToUpper NewFluxServer ?c) (eventRouteKey ?c)
          = Some NewMultiVersionEndpoint"
    unfolding handleEvent_own_key using unsupported by (simp add: NewFluxServer_def)
  then show ?thesis
    using up no key by (simp add: NewFluxServer_def)
qed

text \<open>
  What the rejection of an unsupported method does leave alone: no handler is registered,
  no other route key changes, and the table of the event's own route key keeps every
  slot it had.
\<close>

lemma unsupported_method_frame:
  "\<not> supportedEvent upper ev \<Longrightarrow>
     httpRoutes (handleEvent upper fs ev) = httpRoutes fs \<and>
     (\<forall>k. k \<noteq> eventRouteKey ev \<longrightarrow> endpointMvMap (handleEvent upper fs ev) k = endpointMvMap fs k) \<and>
     (\<forall>m. endpointMvMap fs (eventRouteKey ev) = Some m \<longrightarrow>
          endpointMvMap (handleEvent upper fs ev) (eventRouteKey ev) = Some m)"
  by (simp add: handleEvent_routes handleEvent_other_key handleEvent_own_key)

text \<open>
  A consequence of the entry created for a rejected event: when an event for the route
  \<open>GET /api/{id}\<close> carries an endpoint with an unsupported method, a later \<open>Added\<close>
  event for the same route with a supported method stores its endpoint but finds the
  entry, and the route is never registered.
\<close>

lemma rejected_event_blocks_registration:
  "registrations
     (handleHttpRouteEvent asciiToUpper NewFluxServer
        [(sampleEvent EndpointEventAdded ''GET'' ''v1'')
           \<lparr>Event_Endpoint := sampleEndpoint ''CONNECT'' ''v1''\<rparr>,
         sampleEvent EndpointEventAdded ''GET'' ''v1''])
     ''GET#/api/:id'' = 0"
proof -
  let ?bad = "(sampleEvent EndpointEventAdded ''GET'' ''v1'')
                \<lparr>Event_Endpoint := sampleEndpoint ''CONNECT'' ''v1''\<rparr>"
  let ?good = "sampleEvent EndpointEventAdded ''GET'' ''v1''"
  let ?s = "handleEvent asciiToUpper NewFluxServer ?bad"
  have key: "eventRouteKey ?bad = eventRouteKey ?good"
    by (simp add: eventRouteKey_def sampleEvent_def)
  have unsupported: "\<not> supportedEvent asciiToUpper ?bad"
    by (simp add: supportedEvent_def sampleEvent_def sampleEndpoint_def asciiToUpper_def
          allowedHttpMethods_def)
  have "eventRouteKey ?bad \<in> dom (endpointMvMap ?s)"
    by (simp add: handleEvent_dom)
  then have known: "endpointMvMap ?s (eventRouteKey ?good) \<noteq> None"
    by (simp add: key domIff)
  have "httpRoutes ?s = []"
    using unsupported by (simp add: handleEvent_routes NewFluxServer_def)
  then have "httpRoutes (handleEvent asciiToUpper ?s ?good) = []"
    using known by (simp add: handleEvent_routes)
  then show ?thesis
    by (simp add: registrations_def)
qed

text \<open>
  The table of the sample route after one sample event with the method \<open>GET\<close>.
\<close>

lemma sample_applied:
  "endpointMvMap (handleEvent asciiToUpper fs (sampleEvent t ''GET'' v)) ''GET#/api/:id'' =
     Some (let old = (case endpointMvMap fs ''GET#/api/:id'' of
                        None \<Rightarrow> NewMultiVersionEndpoint | Some m \<Rightarrow> m)
           in if t = EndpointEventRemoved then Delete old v
              else Update old v (sampleEndpoint ''GET'' v))"
proof -
  let ?e = "sampleEvent t ''GET'' v"
  have same: "(Event_Endpoint ?e)\<lparr>HttpMethod := asciiToUpper (HttpMethod (Event_Endpoint ?e))\<rparr>
                = sampleEndpoint ''GET'' v"
    by (simp add: sampleEvent_def sampleEndpoint_def asciiToUpper_def)
  have ver: "Version (sampleEndpoint ''GET'' v) = v"
    by (simp add: sampleEndpoint_def)
  have typ_of: "Event_Type ?e = t"
    by (simp add: sampleEvent_def)
  have "endpointMvMap (handleEvent asciiToUpper fs ?e) (eventRouteKey ?e) =
     Some (let old = (case endpointMvMap fs (eventRouteKey ?e) of
                        None \<Rightarrow> NewMultiVersionEndpoint | Some m \<Rightarrow> m)
           in if t = EndpointEventRemoved then Delete old v
              else Update old v (sampleEndpoint ''GET'' v))"
    unfolding handleEvent_own_key
    using sample_supported [of t v] by (simp add: Let_def same ver typ_of)
  then show ?thesis
    by (simp add: sample_key)
qed

text \<open>
  C4. Applying the same \<open>Added\<close> event a second time changes nothing: the server state
  after two applications (the routing table with every route key and every version slot,
  and the registered routes) equals the state after one.
\<close>

theorem added_event_idempotent:
  "Event_Type ev = EndpointEventAdded \<Longrightarrow>
     handleEvent upper (handleEvent upper fs ev) ev = handleEvent upper fs ev"
  by (auto simp: handleEvent_def getVersionEndpoint_def onVersionEndpoint_def Update_def
        Let_def split: option.splits)

theorem added_event_idempotent_witness:
  "Event_Type (sampleEvent EndpointEventAdded ''GET'' ''v1'') = EndpointEventAdded \<and>
   handleHttpRouteEvent asciiToUpper NewFluxServer
     [sampleEvent EndpointEventAdded ''GET'' ''v1'', sampleEvent EndpointEventAdded ''GET'' ''v1'']
   = handleHttpRouteEvent asciiToUpper NewFluxServer [sampleEvent EndpointEventAdded ''GET'' ''v1''] \<and>
   (\<exists>m. endpointMvMap
          (handleHttpRouteEvent asciiToUpper NewFluxServer [sampleEvent EndpointEventAdded ''GET'' ''v1''])
          ''GET#/api/:id'' = Some m \<and>
        m ''v1'' = Some (sampleEndpoint ''GET'' ''v1''))"
proof -
  let ?a = "sampleEvent EndpointEventAdded ''GET'' ''v1''"
  have added: "Event_Type ?a = EndpointEventAdded"
    by (simp add: sampleEvent_def)
  have same: "(Event_Endpoint ?a)\<lparr>HttpMethod := asciiToUpper (HttpMethod (Event_Endpoint ?a))\<rparr>
                = sampleEndpoint ''GET'' ''v1''"
    by (simp add: sampleEvent_def sampleEndpoint_def asciiToUpper_def)
  have "endpointMvMap (handleEvent asciiToUpper NewFluxServer ?a) (eventRouteKey ?a)
          = Some (Update NewMultiVersionEndpoint ''v1'' (sampleEndpoint ''GET'' ''v1''))"
    unfolding handleEvent_own_key
    using added same sample_supported [of EndpointEventAdded "''v1''"]
    by (simp add: NewFluxServer_def Let_def) (simp add: sampleEndpoint_def)
  then have slot: "\<exists>m. endpointMvMap (handleEvent asciiToUpper NewFluxServer ?a) ''GET#/api/:id'' = Some m
                     \<and> m ''v1'' = Some (sampleEndpoint ''GET'' ''v1'')"
    by (simp add: sample_key Update_def)
  show ?thesis
    using added_event_idempotent [of ?a asciiToUpper NewFluxServer] added slot by simp
qed

text \<open>
  C5. A \<open>Removed\<close> event leaves the entry of its route key in the endpoint map (an
  empty table is created when the key was unknown), and in that table only the slot of
  the endpoint's version can change: it is deleted when the method is supported. Every
  other route key and the registered routes are unchanged. The key can be populated
  again: after a later supported \<open>Added\<close> or \<open>Updated\<close> event for the same route
  key, the slot of that event's version holds its endpoint, and no route is registered
  for a key that already had its entry.
\<close>

theorem removed_event_frame:
  "Event_Type ev = EndpointEventRemoved \<Longrightarrow>
     (\<exists>new. endpointMvMap (handleEvent upper fs ev) (eventRouteKey ev) = Some new \<and>
        (\<forall>v. new v =
               (if v = Version (Event_Endpoint ev) \<and> supportedEvent upper ev then None
                else (case endpointMvMap fs (eventRouteKey ev) of None \<Rightarrow> None | Some old \<Rightarrow> old v)))) \<and>
     (\<forall>k. k \<noteq> eventRouteKey ev \<longrightarrow> endpointMvMap (handleEvent upper fs ev) k = endpointMvMap fs k) \<and>
     httpRoutes (handleEvent upper fs ev) = httpRoutes fs \<and>
     (eventRouteKey later = eventRouteKey ev \<and> supportedEvent upper later \<and>
      Event_Type later \<noteq> EndpointEventRemoved \<longrightarrow>
        (\<exists>again. endpointMvMap (handleEvent upper (handleEvent upper fs ev) later) (eventRouteKey ev)
                   = Some again \<and>
           again (Version (Event_Endpoint later))
             = Some ((Event_Endpoint later)\<lparr>HttpMethod := upper (HttpMethod (Event_Endpoint later))\<rparr>)) \<and>
        httpRoutes (handleEvent upper (handleEvent upper fs ev) later) = httpRoutes fs)"
proof (intro conjI impI)
  assume rm: "Event_Type ev = EndpointEventRemoved"
  show "\<exists>new. endpointMvMap (handleEvent upper fs ev) (eventRouteKey ev) = Some new \<and>
        (\<forall>v. new v =
               (if v = Version (Event_Endpoint ev) \<and> supportedEvent upper ev then None
                else (case endpointMvMap fs (eventRouteKey ev) of None \<Rightarrow> None | Some old \<Rightarrow> old v)))"
    unfolding handleEvent_own_key using rm
    by (simp add: Let_def Delete_def NewMultiVersionEndpoint_def split: option.splits)
  show "\<forall>k. k \<noteq> eventRouteKey ev \<longrightarrow> endpointMvMap (handleEvent upper fs ev) k = endpointMvMap fs k"
    by (simp add: handleEvent_other_key)
  show frame: "httpRoutes (handleEvent upper fs ev) = httpRoutes fs"
    using rm by (simp add: handleEvent_routes)
  assume again: "eventRouteKey later = eventRouteKey ev \<and> supportedEvent upper later \<and>
      Event_Type later \<noteq> EndpointEventRemoved"
  have own: "endpointMvMap (handleEvent upper (handleEvent upper fs ev) later) (eventRouteKey later)
      = Some (let old = (case endpointMvMap (handleEvent upper fs ev) (eventRouteKey later) of
                        None \<Rightarrow> NewMultiVersionEndpoint | Some m \<Rightarrow> m);
               e = (Event_Endpoint later)\<lparr>HttpMethod := upper (HttpMethod (Event_Endpoint later))\<rparr>
           in Update old (Version e) e)"
    unfolding handleEvent_own_key [of upper "handleEvent upper fs ev" later]
    using again by (simp add: Let_def)
  show "\<exists>again. endpointMvMap (handleEvent upper (handleEvent upper fs ev) later) (eventRouteKey ev)
                   = Some again \<and>
           again (Version (Event_Endpoint later))
             = Some ((Event_Endpoint later)\<lparr>HttpMethod := upper (HttpMethod (Event_Endpoint later))\<rparr>)"
    using own again by (simp add: Let_def Update_def)
  have "eventRouteKey later \<in> dom (endpointMvMap (handleEvent upper fs ev))"
    using again by (simp add: handleEvent_dom)
  then have "endpointMvMap (handleEvent upper fs ev) (eventRouteKey later) \<noteq> None"
    by (simp add: domIff)
  then show "httpRoutes (handleEvent upper (handleEvent upper fs ev) later) = httpRoutes fs"
    using frame by (simp add: handleEvent_routes)
qed

theorem removed_event_frame_witness:
  "Event_Type (sampleEvent EndpointEventRemoved ''GET'' ''v2'') = EndpointEventRemoved \<and>
   supportedEvent asciiToUpper (sampleEvent EndpointEventAdded ''GET'' ''v2'') \<and>
   (\<exists>new. endpointMvMap
            (handleHttpRouteEvent asciiToUpper NewFluxServer
               [sampleEvent EndpointEventAdded ''GET'' ''v1'', sampleEvent EndpointEventAdded ''GET'' ''v2'',
                sampleEvent EndpointEventRemoved ''GET'' ''v2''])
            ''GET#/api/:id'' = Some new \<and>
          new ''v2'' = None \<and> new ''v1'' = Some (sampleEndpoint ''GET'' ''v1'')) \<and>
   (\<exists>again. endpointMvMap
            (handleHttpRouteEvent asciiToUpper NewFluxServer
               [sampleEvent EndpointEventAdded ''GET'' ''v1'', sampleEvent EndpointEventAdded ''GET'' ''v2'',
                sampleEvent EndpointEventRemoved ''GET'' ''v2'', sampleEvent EndpointEventAdded ''GET'' ''v2''])
            ''GET#/api/:id'' = Some again \<and>
          again ''v2'' = Some (sampleEndpoint ''GET'' ''v2''))"
proof -
  let ?a1 = "sampleEvent EndpointEventAdded ''GET'' ''v1''"
  let ?a2 = "sampleEvent EndpointEventAdded ''GET'' ''v2''"
  let ?r2 = "sampleEvent EndpointEventRemoved ''GET'' ''v2''"
  let ?s2 = "handleEvent asciiToUpper (handleEvent asciiToUpper NewFluxServer ?a1) ?a2"
  have removed: "Event_Type ?r2 = EndpointEventRemoved"
    by (simp add: sampleEvent_def)
  have added: "Event_Type ?a2 \<noteq> EndpointEventRemoved"
    by (simp add: sampleEvent_def)
  have before: "endpointMvMap ?s2 ''GET#/api/:id''
      = Some (Update (Update NewMultiVersionEndpoint ''v1'' (sampleEndpoint ''GET'' ''v1''))
                ''v2'' (sampleEndpoint ''GET'' ''v2''))"
    by (simp add: sample_applied NewFluxServer_def)
  have e2: "(Event_Endpoint ?a2)\<lparr>HttpMethod := asciiToUpper (HttpMethod (Event_Endpoint ?a2))\<rparr>
                = sampleEndpoint ''GET'' ''v2''"
    by (simp add: sampleEvent_def sampleEndpoint_def asciiToUpper_def)
  have vers: "Version (Event_Endpoint ?r2) = ''v2'' \<and> Version (Event_Endpoint ?a2) = ''v2''"
    by (simp add: sampleEvent_def sampleEndpoint_def)
  show ?thesis
    using removed_event_frame [where ev = ?r2 and later = ?a2 and upper = asciiToUpper and fs = ?s2]
          removed added before e2 vers
          sample_key [of EndpointEventRemoved "''v2''"] sample_key [of EndpointEventAdded "''v2''"]
          sample_supported [of EndpointEventRemoved "''v2''"]
          sample_supported [of EndpointEventAdded "''v2''"]
    by (auto simp: Update_def)
qed

section \<open>Properties of the route handler\<close>

lemma Get_None: "m v = None \<Longrightarrow> Get m v = (None, False)"
  by (simp add: Get_def)

lemma Get_Some: "m v = Some e \<Longrightarrow> Get m v = (Some e, True)"
  by (simp add: Get_def)







text \<open>
  C7: the code differs from the claim. When the dispatcher panics, the handler recovers
  the panic, releases the context and logs the panic, and then returns nil: no error is
  handed to the error adapter and the response writer has not run, so the request gets no
  gateway-internal error response. The same request with a dispatcher that returns an
  error does hand that error on.
\<close>

theorem panic_answered_without_error:
  "generateRouter (Init NewFluxServer None) [''v1'' \<mapsto> sampleEndpoint ''GET'' ''v1'']
     (sampleEnv (Panics ''boom'') (Returns None)) (sampleRequest Map.empty)
   = (None,
      [HttpVisit, Acquire (Some (sampleEndpoint ''GET'' ''v1'')), SetRoutedContext, LogReceived ''v1'',
       FormParsing, Dispatch (Some (sampleEndpoint ''GET'' ''v1'')), Release, LogError ''boom'']) \<and>
   fst (generateRouter (Init NewFluxServer None) [''v1'' \<mapsto> sampleEndpoint ''GET'' ''v1'']
          (sampleEnv (Returns (Some \<lparr>StatusCode = 502, Message = ''DUBBO_RPC:INVOKE'',
                                       Internal = Some ''refused''\<rparr>)) (Returns None))
          (sampleRequest Map.empty))
   = Some (IsInvokeError \<lparr>StatusCode = 502, Message = ''DUBBO_RPC:INVOKE'',
                          Internal = Some ''refused''\<rparr>)"
  by (simp add: generateRouter_def routerBody_def Get_def Header_Get_def sampleRequest_def
        sampleEnv_def NewFluxServer_def Init_def defaultHttpVersionValue_def Let_def)

text \<open>
  What the recovery does for every table, request and environment once a slot is selected
  and the form is parsed: a panic of the dispatcher or of the response writer does not
  leave the handler, the context is released, the panic is logged last, and the handler's
  result is nil. When the dispatcher panics, the response writer does not run.
\<close>

lemma recovered_panic_returns_nil:
  assumes "(case mv (Header_Get (Header req) (httpVersionHeader fs)) of
              Some e \<Rightarrow> Some e | None \<Rightarrow> mv ''v1'') = Some served"
    and "ParseForm req = None"
  shows "(Dispatcher_Dispatch env (Some served) = Panics p \<longrightarrow>
            fst (generateRouter fs mv env req) = None \<and>
            (\<exists>entered. snd (generateRouter fs mv env req)
                         = entered @ [Dispatch (Some served), Release, LogError p] \<and>
                       WriteResponse \<notin> set entered)) \<and>
         (Dispatcher_Dispatch env (Some served) = Returns None \<and>
          Writer_WriteResponse env (Some served) = Panics p \<longrightarrow>
            fst (generateRouter fs mv env req) = None \<and>
            (\<exists>entered. snd (generateRouter fs mv env req)
                         = entered @ [WriteResponse, Release, LogError p]))"
proof (cases "mv (Header_Get (Header req) (httpVersionHeader fs))")
  case None
  then have "mv defaultHttpVersionValue = Some served"
    using assms(1) by (simp add: defaultHttpVersionValue_def)
  then show ?thesis
    using None assms(2)
    by (simp add: generateRouter_def routerBody_def Get_Some Get_None Let_def)
next
  case (Some e)
  then have "e = served"
    using assms(1) by simp
  then show ?thesis
    using Some assms(2)
    by (simp add: generateRouter_def routerBody_def Get_Some Let_def)
qed

section \<open>Properties of the error adapter\<close>

text \<open>
  C10. An error that is not a \<open>*flux.InvokeError\<close> is written as an \<open>InvokeError\<close>
  with \<open>StatusBadRequest\<close> and the message \<open>REQUEST:FORM_PARSING\<close>, whatever the
  error is, and keeps the error as its internal cause; a \<open>*flux.InvokeError\<close> is
  written as it is. When no routed context is stored, the error is written with the
  request id \<open>$proxy\<close> and no headers; otherwise with the context's request id and
  headers.
\<close>

theorem error_adapter_rewrites_foreign_errors:
  "snd (snd (httpErrorAdapting (OtherError t) fc))
     = \<lparr>StatusCode = StatusBadRequest, Message = ''REQUEST:FORM_PARSING'', Internal = Some t\<rparr> \<and>
   StatusBadRequest = 400 \<and>
   snd (snd (httpErrorAdapting (IsInvokeError e) fc)) = e \<and>
   fst (httpErrorAdapting err None) = ''$proxy'' \<and>
   fst (snd (httpErrorAdapting err None)) = [] \<and>
   fst (httpErrorAdapting err (Some fxCtx)) = Routed_RequestId fxCtx \<and>
   fst (snd (httpErrorAdapting err (Some fxCtx))) = Routed_Headers fxCtx"
  by (simp add: httpErrorAdapting_def StatusBadRequest_def Let_def split: option.splits)

section \<open>Properties of the request context\<close>

text \<open>
  C6. On a context bound to a request, reading a value returns the entry of the local
  value cache when there is one, otherwise the web layer's value for the name when that
  is not nil, and otherwise reports absence. Writing a value stores into the local cache
  only: the web layer and the attributes are as before, the name now reads as the value
  written, and every other name reads as before.
\<close>

theorem value_precedence_and_local_writes:
  assumes "ctx_values c = Some vals" and "ctx_webc c = Some web"
  shows "(\<forall>lv. vals name = Some lv \<longrightarrow> GetValue c name = Inr (lv, True)) \<and>
         (\<forall>cv. vals name = None \<and> web name = Some cv \<longrightarrow> GetValue c name = Inr (Some cv, True)) \<and>
         (vals name = None \<and> web name = None \<longrightarrow> GetValue c name = Inr (None, False)) \<and>
         (\<exists>c'. SetValue c name v = Inr c' \<and>
               ctx_values c' = Some (vals(name \<mapsto> v)) \<and>
               ctx_webc c' = ctx_webc c \<and>
               ctx_attachments c' = ctx_attachments c \<and>
               GetValue c' name = Inr (v, True) \<and>
               (\<forall>other. other \<noteq> name \<longrightarrow> GetValue c' other = GetValue c other))"
  using assms by (auto simp: GetValue_def SetValue_def split: option.splits)

theorem value_precedence_and_local_writes_witness:
  "ctx_values sampleContext = Some [''k'' \<mapsto> Some ''local''] \<and>
   (\<exists>web. ctx_webc sampleContext = Some web) \<and>
   GetValue sampleContext ''k'' = Inr (Some ''local'', True) \<and>
   GetValue sampleContext ''user'' = Inr (Some ''from-web'', True) \<and>
   GetValue sampleContext ''none'' = Inr (None, False) \<and>
   (\<exists>c'. SetValue sampleContext ''user'' (Some ''mine'') = Inr c' \<and>
         ctx_webc c' = ctx_webc sampleContext \<and>
         GetValue c' ''user'' = Inr (Some ''mine'', True))"
proof -
  let ?web = "\<lambda>name. if name = ''user'' then Some ''from-web'' else None"
  have vals: "ctx_values sampleContext = Some [''k'' \<mapsto> Some ''local'']"
    by (simp add: sampleContext_def)
  have web: "ctx_webc sampleContext = Some ?web"
    by (simp add: sampleContext_def)
  have k: "GetValue sampleContext ''k'' = Inr (Some ''local'', True)"
    using value_precedence_and_local_writes [OF vals web, of "''k''"] by simp
  have user: "GetValue sampleContext ''user'' = Inr (Some ''from-web'', True)"
    using value_precedence_and_local_writes [OF vals web, of "''user''"] by simp
  have none: "GetValue sampleContext ''none'' = Inr (None, False)"
    using value_precedence_and_local_writes [OF vals web, of "''none''"] by simp
  have stored: "\<exists>c'. SetValue sampleContext ''user'' (Some ''mine'') = Inr c' \<and>
         ctx_webc c' = ctx_webc sampleContext \<and>
         GetValue c' ''user'' = Inr (Some ''mine'', True)"
    using value_precedence_and_local_writes [OF vals web, of "''user''" "Some ''mine''"] by blast
  show ?thesis
    using vals web k user none stored by simp
qed

section \<open>Properties of the permission filter\<close>

text \<open>
  C8. When the filter is enabled and not skipped, the endpoint has \<open>authorize\<close> set and
  names a permission service, every service is loaded, and the verification returns a
  report without success and without error, the filter returns a \<open>StateError\<close> built
  from the report and leaves the state as the verification left it, whatever the rest of
  the chain is: \<open>next\<close>, and with it the backend exchanger, is not invoked. The status
  is the report's, 403 when that is below 100; the error code is the report's,
  \<open>PERMISSION:ACCESS_DENIED\<close> when that is empty. For the report
  \<open>{success: false, errorCode: "PERMISSION:ACCESS_DENIED"}\<close>, which sets no status,
  the error has status 403 and error code \<open>PERMISSION:ACCESS_DENIED\<close>.
\<close>

theorem permission_denied_short_circuits:
  assumes "\<not> Disabled p" and "\<not> SkipFunc p ctx"
    and "Authorize (Context_Endpoint env ctx)"
    and "Permissions (Context_Endpoint env ctx) \<noteq> [] \<or> IsValid env (Permission (Context_Endpoint env ctx))"
    and "loadServices (LoadBackendService env) (Permissions (Context_Endpoint env ctx))
           (if IsValid env (Permission (Context_Endpoint env ctx))
            then [Permission (Context_Endpoint env ctx)] else []) = Inr services"
    and "VerifyFunc p services ctx w = ((report, None), w')"
    and "\<not> Success report"
  shows "(\<exists>err. DoFilter p env next ctx w = (Some err, w') \<and>
            State_StatusCode err
              = (if Report_StatusCode report < 100 then 403 else Report_StatusCode report) \<and>
            ErrorCode err
              = (if Report_ErrorCode report = [] then ''PERMISSION:ACCESS_DENIED''
                 else Report_ErrorCode report) \<and>
            (Report_StatusCode report < 100 \<and> Report_ErrorCode report = ''PERMISSION:ACCESS_DENIED''
               \<longrightarrow> State_StatusCode err = 403 \<and> ErrorCode err = ''PERMISSION:ACCESS_DENIED'')) \<and>
         (\<forall>other. DoFilter p env other ctx w = DoFilter p env next ctx w)"
  using assms
  by (auto simp: DoFilter_def Let_def EnsurePermissionStatusCode_def EnsurePermissionErrorCode_def
        ErrorCodePermissionDenied_def StatusForbidden_def)

theorem permission_denied_short_circuits_witness:
  "\<not> Disabled denyingFilter \<and> \<not> SkipFunc denyingFilter authorizedEndpoint \<and>
   Authorize (Context_Endpoint sampleFilterEnv authorizedEndpoint) \<and>
   \<not> Success deniedReport \<and>
   DoFilter denyingFilter sampleFilterEnv countingNext authorizedEndpoint 0
     = (Some \<lparr>State_StatusCode = 403, ErrorCode = ''PERMISSION:ACCESS_DENIED'',
               State_Message = ''PERMISSION:ACCESS_DENIED'', State_Internal = None\<rparr>, 0)"
proof -
  let ?e = authorizedEndpoint
  have enabled: "\<not> Disabled denyingFilter" and unskipped: "\<not> SkipFunc denyingFilter ?e"
    by (simp_all add: denyingFilter_def)
  have auth: "Authorize (Context_Endpoint sampleFilterEnv ?e)"
    by (simp add: sampleFilterEnv_def authorizedEndpoint_def)
  have perms: "Permissions (Context_Endpoint sampleFilterEnv ?e) \<noteq> []
                 \<or> IsValid sampleFilterEnv (Permission (Context_Endpoint sampleFilterEnv ?e))"
    by (simp add: sampleFilterEnv_def authorizedEndpoint_def)
  have loaded: "loadServices (LoadBackendService sampleFilterEnv)
                  (Permissions (Context_Endpoint sampleFilterEnv ?e))
                  (if IsValid sampleFilterEnv (Permission (Context_Endpoint sampleFilterEnv ?e))
                   then [Permission (Context_Endpoint sampleFilterEnv ?e)] else []) = Inr [permService]"
    by (simp add: sampleFilterEnv_def authorizedEndpoint_def sampleEndpoint_def noService_def)
  have verified: "VerifyFunc denyingFilter [permService] ?e 0 = ((deniedReport, None), 0)"
    by (simp add: denyingFilter_def)
  have denied: "\<not> Success deniedReport"
    by (simp add: deniedReport_def)
  obtain err where run: "DoFilter denyingFilter sampleFilterEnv countingNext ?e 0 = (Some err, 0)"
      and status: "State_StatusCode err = 403" and code: "ErrorCode err = ''PERMISSION:ACCESS_DENIED''"
    using permission_denied_short_circuits
            [OF enabled unskipped auth perms loaded verified denied, of countingNext]
    by (auto simp: deniedReport_def)
  have shape: "State_Message err = ''PERMISSION:ACCESS_DENIED'' \<and> State_Internal err = None"
    using run
    by (auto simp: DoFilter_def Let_def denyingFilter_def sampleFilterEnv_def authorizedEndpoint_def
          sampleEndpoint_def noService_def deniedReport_def EnsurePermissionMessage_def
          ErrorCodePermissionDenied_def)
  have "err = \<lparr>State_StatusCode = 403, ErrorCode = ''PERMISSION:ACCESS_DENIED'',
               State_Message = ''PERMISSION:ACCESS_DENIED'', State_Internal = None\<rparr>"
    using status code shape by (cases err) simp
  then show ?thesis
    using enabled unskipped auth denied run by simp
qed

section \<open>Properties of the Dubbo exchanger\<close>

text \<open>
  C9. When the generic invocation returns an error, \<open>Invoke\<close> returns a nil result,
  whatever response came with the error, and an \<open>InvokeError\<close> with status 502
  (\<open>StatusBadGateway\<close>), the message \<open>DUBBO_RPC:INVOKE\<close> and the transport error as
  its internal cause.
\<close>

theorem dubbo_error_is_bad_gateway:
  assumes "GenericService_Invoke env (fst (lookup env ex target)) fxctx (UpstreamMethod target)
             (fst (assemble env (Arguments target))) (snd (assemble env (Arguments target)))
           = (resp, Some err)"
  shows "fst (Invoke env ex target fxctx)
           = (None, Some \<lparr>StatusCode = 502, Message = ''DUBBO_RPC:INVOKE'', Internal = Some err\<rparr>)"
  using assms
  by (simp add: Invoke_def StatusBadGateway_def ErrMessageInvoke_def split_beta)

theorem dubbo_error_is_bad_gateway_witness:
  "GenericService_Invoke failingDubbo
     (fst (lookup failingDubbo NewDubboExchange (sampleEndpoint ''GET'' ''v1''))) None
     (UpstreamMethod (sampleEndpoint ''GET'' ''v1''))
     (fst (assemble failingDubbo (Arguments (sampleEndpoint ''GET'' ''v1''))))
     (snd (assemble failingDubbo (Arguments (sampleEndpoint ''GET'' ''v1''))))
     = (Some ''partial'', Some ''connection refused'') \<and>
   fst (Invoke failingDubbo NewDubboExchange (sampleEndpoint ''GET'' ''v1'') None)
     = (None, Some \<lparr>StatusCode = 502, Message = ''DUBBO_RPC:INVOKE'',
                     Internal = Some ''connection refused''\<rparr>)"
proof -
  have failed: "GenericService_Invoke failingDubbo
     (fst (lookup failingDubbo NewDubboExchange (sampleEndpoint ''GET'' ''v1''))) None
     (UpstreamMethod (sampleEndpoint ''GET'' ''v1''))
     (fst (assemble failingDubbo (Arguments (sampleEndpoint ''GET'' ''v1''))))
     (snd (assemble failingDubbo (Arguments (sampleEndpoint ''GET'' ''v1''))))
     = (Some ''partial'', Some ''connection refused'')"
    by (simp add: failingDubbo_def)
  show ?thesis
    using dubbo_error_is_bad_gateway [OF failed] failed by simp
qed

end
